theory Spec2Isabelle
  imports Complex_Main
begin

section \<open>Errors\<close>

text \<open>
  The Python exceptions that the modelled functions can raise. A function that can
  raise returns \<open>error + 'a\<close>, with \<open>Inl\<close> for the exception.
\<close>

datatype error =
  AssertionError | ValueError | IndexError | KeyError | ZeroDivisionError
  | UnrecognizedFlag | FeatureExtractionError

fun sequence :: "(error + 'a) list \<Rightarrow> error + 'a list" where
  "sequence [] = Inr []"
| "sequence (r # rs) =
     (case r of
        Inl e \<Rightarrow> Inl e
      | Inr x \<Rightarrow> (case sequence rs of Inl e \<Rightarrow> Inl e | Inr xs \<Rightarrow> Inr (x # xs)))"

text \<open>
  Indexing a Python sequence (or one axis of a numpy array) of length \<open>n\<close> with the
  integer \<open>k\<close>: a negative index counts from the end, an index out of range raises
  IndexError.
\<close>

definition py_index :: "nat \<Rightarrow> int \<Rightarrow> error + nat" where
  "py_index n k =
     (if 0 \<le> k \<and> k < int n then Inr (nat k)
      else if - int n \<le> k \<and> k < 0 then Inr (nat (int n + k))
      else Inl IndexError)"

definition getitem :: "'a list \<Rightarrow> int \<Rightarrow> error + 'a" where
  "getitem xs k =
     (case py_index (length xs) k of Inl e \<Rightarrow> Inl e | Inr i \<Rightarrow> Inr (xs ! i))"

text \<open>
  Storing a non-negative index into an array of dtype int32 keeps its low 32 bits, read
  back as a signed value.
\<close>

definition int32 :: "nat \<Rightarrow> int" where
  "int32 n = (int n + 2 ^ 31) mod 2 ^ 32 - 2 ^ 31"

section \<open>numpy arrays\<close>

text \<open>
  A numpy array is its shape and its entries. Scores are kept in an abstract type
  \<open>'a\<close> with exact arithmetic: the rounding of float64 is not modelled.
\<close>

record 'a ndarray2 =
  shape2 :: "nat \<times> nat"
  item2 :: "nat \<Rightarrow> nat \<Rightarrow> 'a"

record 'a ndarray3 =
  shape3 :: "nat \<times> nat \<times> nat"
  item3 :: "nat \<Rightarrow> nat \<Rightarrow> nat \<Rightarrow> 'a"

text \<open>\<open>a[:, c]\<close> for a two-dimensional array \<open>a\<close>.\<close>

definition column :: "'a ndarray2 \<Rightarrow> nat \<Rightarrow> 'a list" where
  "column a c = map (\<lambda>i. item2 a i c) [0..<fst (shape2 a)]"

text \<open>
  \<open>transition_weights\<close> is an array of two dimensions (one matrix for every
  transition) or of three (one matrix per transition); the code tells them apart by
  \<open>ndim > 2\<close>.
\<close>

datatype 'a transition_weights = Ndim2 "'a ndarray2" | Ndim3 "'a ndarray3"

fun ndim :: "'a transition_weights \<Rightarrow> nat" where
  "ndim (Ndim2 m) = 2"
| "ndim (Ndim3 t) = 3"

text \<open>
  Entry \<open>[i, j]\<close> of \<open>pred_transition_weights\<close> at \<open>column_index\<close>:
  \<open>transition_weights[column_index - 1, :, :]\<close> when the scores are by item,
  \<open>transition_weights\<close> itself otherwise.
\<close>

fun pred_transition_weights :: "'a transition_weights \<Rightarrow> nat \<Rightarrow> nat \<Rightarrow> nat \<Rightarrow> 'a" where
  "pred_transition_weights (Ndim2 m) column_index i j = item2 m i j"
| "pred_transition_weights (Ndim3 t) column_index i j = item3 t (column_index - 1) i j"

text \<open>
  The inputs the docstring of \<open>run_viterbi\<close> allows: \<open>node_scores\<close> of size
  \<open>num_states x num_sequence_items\<close> with at least one item, and
  \<open>transition_weights\<close> of size \<open>num_states x num_states\<close> or
  \<open>(num_sequence_items - 1) x num_states x num_states\<close>. On other shapes numpy
  broadcasts or raises, which the model does not follow.
\<close>

fun valid_trellis :: "'a ndarray2 \<Rightarrow> 'a transition_weights \<Rightarrow> bool" where
  "valid_trellis node_scores (Ndim2 m) =
     (1 \<le> snd (shape2 node_scores)
      \<and> shape2 m = (fst (shape2 node_scores), fst (shape2 node_scores)))"
| "valid_trellis node_scores (Ndim3 t) =
     (1 \<le> snd (shape2 node_scores)
      \<and> shape3 t = (snd (shape2 node_scores) - 1, fst (shape2 node_scores),
                     fst (shape2 node_scores)))"

section \<open>Semirings\<close>

text \<open>
  The reductions of numpy on a vector. \<open>np.sum\<close> of an empty vector is 0;
  \<open>np.max\<close> and \<open>np.argmax\<close> of an empty vector raise ValueError;
  \<open>np.argmax\<close> returns the first index of the maximum. Applied with
  \<open>axis=0\<close> to a matrix, a reduction is applied to each column.
\<close>

definition np_sum :: "'a::comm_monoid_add list \<Rightarrow> error + 'a" where
  "np_sum xs = Inr (sum_list xs)"

fun np_max :: "'a::linorder list \<Rightarrow> error + 'a" where
  "np_max [] = Inl ValueError"
| "np_max (x # xs) = Inr (fold max xs x)"

fun argmax_from :: "'a::linorder \<Rightarrow> nat \<Rightarrow> nat \<Rightarrow> 'a list \<Rightarrow> nat" where
  "argmax_from best best_index i [] = best_index"
| "argmax_from best best_index i (x # xs) =
     (if best < x then argmax_from x i (Suc i) xs
      else argmax_from best best_index (Suc i) xs)"

fun np_argmax :: "'a::linorder list \<Rightarrow> error + nat" where
  "np_argmax [] = Inl ValueError"
| "np_argmax (x # xs) = Inr (argmax_from x 0 1 xs)"

record 'a semiring =
  sum_op :: "'a list \<Rightarrow> error + 'a"
  multiply :: "'a \<Rightarrow> 'a \<Rightarrow> 'a"
  additive_identity :: 'a
  multiplicative_identity :: 'a
  arg_sum :: "('a list \<Rightarrow> error + nat) option"

text \<open>
  The common semirings. \<open>-np.inf\<close> is a float that the carrier need not have: the
  two max semirings take the value that stands for it as \<open>neg_inf\<close>.
\<close>

definition PLUS_MULTIPLY :: "'a::comm_semiring_1 semiring" where
  "PLUS_MULTIPLY =
     \<lparr>sum_op = np_sum, multiply = (*), additive_identity = 0,
      multiplicative_identity = 1, arg_sum = None\<rparr>"

definition MAX_MULTIPLY :: "'a \<Rightarrow> ('a::{linorder,times,one}) semiring" where
  "MAX_MULTIPLY neg_inf =
     \<lparr>sum_op = np_max, multiply = (*), additive_identity = neg_inf,
      multiplicative_identity = 1, arg_sum = Some np_argmax\<rparr>"

definition MAX_PLUS :: "'a \<Rightarrow> ('a::{linorder,plus,zero}) semiring" where
  "MAX_PLUS neg_inf =
     \<lparr>sum_op = np_max, multiply = (+), additive_identity = neg_inf,
      multiplicative_identity = 0, arg_sum = Some np_argmax\<rparr>"

section \<open>ViterbiDecoder\<close>

record ('a, 's) ViterbiDecoder =
  possible_states :: "'s list option"
  semiring :: "'a semiring"

text \<open>
  What \<open>run_viterbi\<close> returns: the score alone, or the score with the best path, which
  is the int32 array of state indices, or the list of their \<open>possible_states\<close>.
\<close>

datatype ('a, 's) viterbi_result =
  Score 'a
  | Best_Path 'a "int list"
  | Best_States 'a "'s list"

text \<open>
  The working arrays \<open>path_scores\<close> and \<open>predecessors\<close> are only ever accessed
  by column: they are functions from the column index to the column, and
  \<open>best_state_path\<close> is a function from the position to the state index.
  \<open>np.empty\<close> leaves the cells unspecified.
\<close>

type_synonym 'a trellis_state = "(nat \<Rightarrow> 'a list) \<times> (nat \<Rightarrow> int list)"

text \<open>
  Column \<open>j\<close> of \<open>predecessor_scores\<close>: over the start states \<open>i\<close>, the weight
  of the transition from \<open>i\<close> to \<open>j\<close> multiplied with the path score of \<open>i\<close> in
  the previous column.
\<close>

definition predecessor_scores ::
  "'a semiring \<Rightarrow> 'a transition_weights \<Rightarrow> nat \<Rightarrow> nat \<Rightarrow> 'a list \<Rightarrow> nat \<Rightarrow> 'a list" where
  "predecessor_scores sr transition_weights num_states column_index prev j =
     map (\<lambda>i. multiply sr (pred_transition_weights transition_weights column_index i j)
                 (prev ! i))
       [0..<num_states]"

text \<open>The body of the loop over \<open>column_index\<close>.\<close>

definition viterbi_column ::
  "'a semiring \<Rightarrow> 'a ndarray2 \<Rightarrow> 'a transition_weights \<Rightarrow> bool \<Rightarrow> nat
     \<Rightarrow> 'a trellis_state \<Rightarrow> error + 'a trellis_state" where
  "viterbi_column sr node_scores transition_weights return_best_path column_index st =
     (let num_states = fst (shape2 node_scores);
          path_scores = fst st;
          predecessors = snd st;
          pscores = predecessor_scores sr transition_weights num_states column_index
                      (path_scores (column_index - 1))
      in if return_best_path then
           (case arg_sum sr of
              None \<Rightarrow> Inl AssertionError
            | Some f \<Rightarrow>
               (case sequence (map (\<lambda>j. f (pscores j)) [0..<num_states]) of
                  Inl e \<Rightarrow> Inl e
                | Inr predecessor_indices \<Rightarrow>
                   (case sequence
                           (map (\<lambda>j. getitem (pscores j) (int (predecessor_indices ! j)))
                              [0..<num_states]) of
                      Inl e \<Rightarrow> Inl e
                    | Inr summed_scores \<Rightarrow>
                        Inr (path_scores
                               (column_index :=
                                  map2 (multiply sr) (column node_scores column_index)
                                    summed_scores),
                             predecessors
                               (column_index := map int32 predecessor_indices)))))
         else
           (case sequence (map (\<lambda>j. sum_op sr (pscores j)) [0..<num_states]) of
              Inl e \<Rightarrow> Inl e
            | Inr summed_scores \<Rightarrow>
                Inr (path_scores
                       (column_index :=
                          map2 (multiply sr) (column node_scores column_index)
                            summed_scores),
                     predecessors)))"

fun viterbi_columns ::
  "(nat \<Rightarrow> 'a trellis_state \<Rightarrow> error + 'a trellis_state) \<Rightarrow> nat list
     \<Rightarrow> 'a trellis_state \<Rightarrow> error + 'a trellis_state" where
  "viterbi_columns body [] st = Inr st"
| "viterbi_columns body (column_index # rest) st =
     (case body column_index st of
        Inl e \<Rightarrow> Inl e
      | Inr st' \<Rightarrow> viterbi_columns body rest st')"

text \<open>
  The loop that walks the predecessors backward:
  \<open>best_state_path[i - 1] = predecessors[best_state_path[i], i]\<close>.
\<close>

fun reconstruct ::
  "(nat \<Rightarrow> int list) \<Rightarrow> nat list \<Rightarrow> (nat \<Rightarrow> int) \<Rightarrow> error + (nat \<Rightarrow> int)" where
  "reconstruct predecessors [] best_state_path = Inr best_state_path"
| "reconstruct predecessors (i # rest) best_state_path =
     (case getitem (predecessors i) (best_state_path i) of
        Inl e \<Rightarrow> Inl e
      | Inr p \<Rightarrow> reconstruct predecessors rest (best_state_path(i - 1 := p)))"

text \<open>
  The end of \<open>run_viterbi\<close> when the best path is asked for: the best final state,
  its score, the walk backward and the mapping to \<open>possible_states\<close>. A Python list
  is true when it is not empty.
\<close>

definition best_path_result ::
  "('a, 's) ViterbiDecoder \<Rightarrow> nat \<Rightarrow> (nat \<Rightarrow> 'a list) \<Rightarrow> (nat \<Rightarrow> int list)
     \<Rightarrow> error + ('a, 's) viterbi_result" where
  "best_path_result self num_columns path_scores predecessors =
     (case arg_sum (semiring self) of
        None \<Rightarrow> Inl AssertionError
      | Some f \<Rightarrow>
         (case f (path_scores (num_columns - 1)) of
            Inl e \<Rightarrow> Inl e
          | Inr best_final_index \<Rightarrow>
             (let best_state_path =
                    (\<lambda>i. undefined)(num_columns - 1 := int32 best_final_index)
              in case getitem (path_scores (num_columns - 1)) (int best_final_index) of
                   Inl e \<Rightarrow> Inl e
                 | Inr summed_score \<Rightarrow>
                    (case reconstruct predecessors (rev [1..<num_columns]) best_state_path of
                       Inl e \<Rightarrow> Inl e
                     | Inr best_state_path \<Rightarrow>
                        (case possible_states self of
                           None \<Rightarrow>
                             Inr (Best_Path summed_score
                                    (map best_state_path [0..<num_columns]))
                         | Some [] \<Rightarrow>
                             Inr (Best_Path summed_score
                                    (map best_state_path [0..<num_columns]))
                         | Some states \<Rightarrow>
                            (case sequence
                                    (map (\<lambda>i. getitem states (best_state_path i))
                                       [0..<num_columns]) of
                               Inl e \<Rightarrow> Inl e
                             | Inr labels \<Rightarrow> Inr (Best_States summed_score labels)))))))"

text \<open>
  \<open>run_viterbi\<close>. \<open>nan_int32\<close> is the int32 that numpy stores for \<open>np.NaN\<close>
  in column 0 of \<open>predecessors\<close>: it depends on the platform. Without
  \<open>return_best_path\<close> no \<open>predecessors\<close> array exists.
\<close>

definition run_viterbi ::
  "('a, 's) ViterbiDecoder \<Rightarrow> int \<Rightarrow> 'a ndarray2 \<Rightarrow> 'a transition_weights \<Rightarrow> bool
     \<Rightarrow> error + ('a, 's) viterbi_result" where
  "run_viterbi self nan_int32 node_scores transition_weights return_best_path =
     (let sr = semiring self;
          num_states = fst (shape2 node_scores);
          num_columns = snd (shape2 node_scores)
      in if arg_sum sr = None \<and> return_best_path then Inl AssertionError
         else if num_columns = 0 then Inl IndexError
         else
           (let path_scores = (\<lambda>c. replicate num_states undefined)
                                (0 := column node_scores 0);
                predecessors =
                  (if return_best_path
                   then (\<lambda>c. replicate num_states undefined)
                          (0 := replicate num_states nan_int32)
                   else (\<lambda>c. []))
            in case viterbi_columns
                      (viterbi_column sr node_scores transition_weights return_best_path)
                      [1..<num_columns] (path_scores, predecessors) of
                 Inl e \<Rightarrow> Inl e
               | Inr (path_scores, predecessors) \<Rightarrow>
                  (if return_best_path
                   then best_path_result self num_columns path_scores predecessors
                   else
                     (case sum_op sr (path_scores (num_columns - 1)) of
                        Inl e \<Rightarrow> Inl e
                      | Inr summed_score \<Rightarrow> Inr (Score summed_score)))))"

section \<open>Trellises with constant scores\<close>

text \<open>
  All node scores equal \<open>a\<close>; all transition weights equal \<open>b\<close>.
  \<open>constant_trellis\<close> is what the loop of \<open>run_viterbi\<close> reads of such a
  trellis.
\<close>

definition constant_scores :: "'a ndarray2 \<Rightarrow> 'a \<Rightarrow> bool" where
  "constant_scores node_scores a \<longleftrightarrow>
     (\<forall>i \<in> {0..<fst (shape2 node_scores)}. \<forall>c \<in> {0..<snd (shape2 node_scores)}.
        item2 node_scores i c = a)"

fun constant_weights :: "'a transition_weights \<Rightarrow> 'a \<Rightarrow> bool" where
  "constant_weights (Ndim2 m) b \<longleftrightarrow>
     (\<forall>i \<in> {0..<fst (shape2 m)}. \<forall>j \<in> {0..<snd (shape2 m)}. item2 m i j = b)"
| "constant_weights (Ndim3 t) b \<longleftrightarrow>
     (\<forall>k \<in> {0..<fst (shape3 t)}. \<forall>i \<in> {0..<fst (snd (shape3 t))}.
        \<forall>j \<in> {0..<snd (snd (shape3 t))}. item3 t k i j = b)"

definition constant_trellis :: "'a ndarray2 \<Rightarrow> 'a transition_weights \<Rightarrow> 'a \<Rightarrow> 'a \<Rightarrow> bool" where
  "constant_trellis ns tw a b \<longleftrightarrow>
     (\<forall>i < fst (shape2 ns). \<forall>c < snd (shape2 ns). item2 ns i c = a)
     \<and> (\<forall>c < snd (shape2 ns). \<forall>i < fst (shape2 ns). \<forall>j < fst (shape2 ns).
           1 \<le> c \<longrightarrow> pred_transition_weights tw c i j = b)"

section \<open>The sum over all state paths\<close>


definition all_paths :: "nat \<Rightarrow> nat \<Rightarrow> nat list list" where
  "all_paths num_states num_positions = List.n_lists num_positions [0..<num_states]"



section \<open>ClassBalancingModelWrapper\<close>

text \<open>
  \<open>ratio\<close> is a Python float: a finite number, taken with exact arithmetic, or
  \<open>float('inf')\<close>, the default. NaN and \<open>-inf\<close> are not modelled.
\<close>

datatype ratio = Finite_Ratio real | Infinite_Ratio

fun ratio_le_one :: "ratio \<Rightarrow> bool" where
  "ratio_le_one (Finite_Ratio r) = (r \<le> 1)"
| "ratio_le_one Infinite_Ratio = False"

text \<open>\<open>int(x)\<close> of a float truncates toward zero.\<close>

definition py_int :: "real \<Rightarrow> int" where
  "py_int x = (if 0 \<le> x then \<lfloor>x\<rfloor> else \<lceil>x\<rceil>)"

text \<open>
  One entry of \<open>counts_to_add\<close>:
  \<open>int(min(max_count - current_count, (ratio - 1) * current_count))\<close>. With an
  infinite ratio the product is infinite and the minimum is its first argument.
\<close>

fun count_to_add :: "ratio \<Rightarrow> nat \<Rightarrow> nat \<Rightarrow> int" where
  "count_to_add (Finite_Ratio r) max_count current_count =
     py_int (min (real_of_int (int max_count - int current_count))
               ((r - 1) * real current_count))"
| "count_to_add Infinite_Ratio max_count current_count =
     int max_count - int current_count"

text \<open>
  \<open>np.unique(labels, return_inverse=True, return_counts=True)\<close>: the sorted distinct
  labels, for each label its index among them, and the count of each distinct label.
\<close>

fun index_of :: "'a list \<Rightarrow> 'a \<Rightarrow> nat" where
  "index_of [] y = 0"
| "index_of (x # xs) y = (if x = y then 0 else Suc (index_of xs y))"

definition np_unique :: "'l::linorder list \<Rightarrow> 'l list \<times> nat list \<times> nat list" where
  "np_unique labels =
     (let label_set = sort (remdups labels)
      in (label_set, map (index_of label_set) labels,
          map (\<lambda>l. length (filter (\<lambda>x. x = l) labels)) label_set))"

text \<open>
  \<open>label_counts.max()\<close> raises ValueError on an empty array; then come the
  \<open>counts_to_add\<close>.
\<close>

definition counts_to_add :: "ratio \<Rightarrow> 'l::linorder list \<Rightarrow> error + int list" where
  "counts_to_add ratio labels =
     (let label_counts = snd (snd (np_unique labels))
      in case np_max label_counts of
           Inl e \<Rightarrow> Inl e
         | Inr max_count \<Rightarrow> Inr (map (count_to_add ratio max_count) label_counts))"

text \<open>\<open>xs[:k]\<close>: a negative \<open>k\<close> counts from the end.\<close>

definition slice_to :: "'a list \<Rightarrow> int \<Rightarrow> 'a list" where
  "slice_to xs k = (if 0 \<le> k then take (nat k) xs else take (nat (int (length xs) + k)) xs)"

text \<open>
  The rows to replicate for one label. \<open>random_choice\<close> stands for
  \<open>np.random.choice\<close>. In the deterministic branch the division is the integer
  division of Python 2, which raises on a zero divisor, and \<open>np.tile\<close> raises on a
  negative number of repetitions.
\<close>

definition replicated_indices ::
  "bool \<Rightarrow> (nat list \<Rightarrow> int \<Rightarrow> nat list) \<Rightarrow> nat list \<Rightarrow> int \<Rightarrow> error + nat list" where
  "replicated_indices rebalance_stochastically random_choice label_row_indices count =
     (if rebalance_stochastically then Inr (random_choice label_row_indices count)
      else if length label_row_indices = 0 then Inl ZeroDivisionError
      else
        (let full_repetitions = count div int (length label_row_indices)
         in if full_repetitions < 0 then Inl ValueError
            else
              (let indices = concat (replicate (nat full_repetitions) label_row_indices);
                   still_needed = count - int (length indices)
               in if still_needed \<noteq> 0
                  then Inr (indices @ slice_to label_row_indices still_needed)
                  else Inr indices)))"


text \<open>
  \<open>buf[lo:hi] = new\<close> on an array that is a function of the row index: the shapes
  must agree.
\<close>

definition assign_slice :: "(nat \<Rightarrow> 'x) \<Rightarrow> int \<Rightarrow> int \<Rightarrow> 'x list \<Rightarrow> error + (nat \<Rightarrow> 'x)" where
  "assign_slice buf lo hi new =
     (if int (length new) = hi - lo
      then Inr (\<lambda>i. if lo \<le> int i \<and> int i < hi then new ! (i - nat lo) else buf i)
      else Inl ValueError)"

text \<open>\<open>np.concatenate(([0], np.cumsum(counts_to_add)))\<close>.\<close>

definition slices :: "int list \<Rightarrow> int list" where
  "slices counts = map (\<lambda>j. sum_list (take j counts)) [0..<Suc (length counts)]"

text \<open>\<open>data[indices]\<close> and \<open>labels[indices]\<close> for an array of indices.\<close>

definition take_rows :: "'x list \<Rightarrow> nat list \<Rightarrow> error + 'x list" where
  "take_rows xs indices = sequence (map (\<lambda>i. getitem xs (int i)) indices)"

text \<open>The body of the loop over the labels \<open>j\<close>, and the loop.\<close>

definition rebalance_label ::
  "bool \<Rightarrow> (nat list \<Rightarrow> int \<Rightarrow> nat list) \<Rightarrow> 'x list \<Rightarrow> 'l list \<Rightarrow> nat list \<Rightarrow> int list
     \<Rightarrow> nat \<Rightarrow> (nat \<Rightarrow> 'x) \<times> (nat \<Rightarrow> 'l) \<Rightarrow> error + (nat \<Rightarrow> 'x) \<times> (nat \<Rightarrow> 'l)" where
  "rebalance_label rebalance_stochastically random_choice data labels label_indices
       counts j st =
     (let rebalanced_data = fst st;
          rebalanced_labels = snd st;
          label_row_indices =
            filter (\<lambda>i. label_indices ! i = j) [0..<length label_indices]
      in case replicated_indices rebalance_stochastically random_choice label_row_indices
                (counts ! j) of
           Inl e \<Rightarrow> Inl e
         | Inr indices \<Rightarrow>
            (if length indices \<noteq> 0 then
               (case take_rows data indices of
                  Inl e \<Rightarrow> Inl e
                | Inr rows \<Rightarrow>
                   (case assign_slice rebalanced_data (slices counts ! j)
                           (slices counts ! (j + 1)) rows of
                      Inl e \<Rightarrow> Inl e
                    | Inr rebalanced_data \<Rightarrow>
                       (case take_rows labels indices of
                          Inl e \<Rightarrow> Inl e
                        | Inr row_labels \<Rightarrow>
                           (case assign_slice rebalanced_labels (slices counts ! j)
                                   (slices counts ! (j + 1)) row_labels of
                              Inl e \<Rightarrow> Inl e
                            | Inr rebalanced_labels \<Rightarrow>
                                Inr (rebalanced_data, rebalanced_labels)))))
             else Inr (rebalanced_data, rebalanced_labels)))"

fun rebalance_labels ::
  "(nat \<Rightarrow> 's \<Rightarrow> error + 's) \<Rightarrow> nat list \<Rightarrow> 's \<Rightarrow> error + 's" where
  "rebalance_labels body [] st = Inr st"
| "rebalance_labels body (j # js) st =
     (case body j st of Inl e \<Rightarrow> Inl e | Inr st' \<Rightarrow> rebalance_labels body js st')"

text \<open>
  \<open>rebalance\<close>. \<open>data\<close> is the list of its rows. The new rows start as zeros
  (\<open>lil_matrix\<close>), the new labels unspecified (\<open>np.empty\<close>); a negative number of
  rows is refused by both constructors.
\<close>

definition shape1 :: "'v list list \<Rightarrow> nat" where
  "shape1 data = (case data of [] \<Rightarrow> 0 | row # _ \<Rightarrow> length row)"

definition rebalance ::
  "bool \<Rightarrow> (nat list \<Rightarrow> int \<Rightarrow> nat list) \<Rightarrow> ratio \<Rightarrow> ('v::zero) list list
     \<Rightarrow> ('l::linorder) list \<Rightarrow> error + 'v list list \<times> 'l list" where
  "rebalance rebalance_stochastically random_choice ratio data labels =
     (if ratio_le_one ratio then Inr (data, labels)
      else
        (let label_set = fst (np_unique labels);
             label_indices = fst (snd (np_unique labels))
         in case counts_to_add ratio labels of
              Inl e \<Rightarrow> Inl e
            | Inr counts \<Rightarrow>
               (let rows_to_add = sum_list counts
                in if rows_to_add = 0 then Inr (data, labels)
                   else if rows_to_add < 0 then Inl ValueError
                   else
                     (let rebalanced_data = (\<lambda>i. replicate (shape1 data) 0);
                          rebalanced_labels = (\<lambda>i. undefined)
                      in case rebalance_labels
                                (rebalance_label rebalance_stochastically random_choice
                                   data labels label_indices counts)
                                [0..<length label_set]
                                (rebalanced_data, rebalanced_labels) of
                           Inl e \<Rightarrow> Inl e
                         | Inr (rebalanced_data, rebalanced_labels) \<Rightarrow>
                             Inr (data @ map rebalanced_data [0..<nat rows_to_add],
                                  labels @ map rebalanced_labels [0..<nat rows_to_add])))))"

text \<open>The data and the labels of \<open>SmallClassBalancingTest\<close>.\<close>

definition test_data :: "int list list" where
  "test_data = [[1, 2, 3], [4, 5, 6], [7, 8, 9], [10, 11, 12]]"

definition test_labels :: "int list" where
  "test_labels = [1, 1, 0, 1]"

text \<open>
  What the loop of \<open>rebalance\<close> leaves in a buffer: after the blocks
  \<open>news 0, ..., news (m - 1)\<close> have been assigned to consecutive slices,
  \<open>written news m buf\<close> is the buffer and \<open>offset news m\<close> the end of the last
  slice.
\<close>

definition offset :: "(nat \<Rightarrow> 'x list) \<Rightarrow> nat \<Rightarrow> nat" where
  "offset news m = sum_list (map (\<lambda>j. length (news j)) [0..<m])"

fun written :: "(nat \<Rightarrow> 'x list) \<Rightarrow> nat \<Rightarrow> (nat \<Rightarrow> 'x) \<Rightarrow> nat \<Rightarrow> 'x" where
  "written news 0 buf = buf"
| "written news (Suc m) buf =
     (\<lambda>i. if offset news m \<le> i \<and> i < offset news m + length (news m)
          then news m ! (i - offset news m) else written news m buf i)"

section \<open>Strings\<close>

text \<open>\<open>sep.join(strings)\<close> and \<open>string.split(sep)\<close> for a separator of one character.\<close>

fun join :: "string \<Rightarrow> string list \<Rightarrow> string" where
  "join sep [] = []"
| "join sep [x] = x"
| "join sep (x # y # ys) = x @ sep @ join sep (y # ys)"

fun str_split :: "char \<Rightarrow> string \<Rightarrow> string list" where
  "str_split sep [] = [[]]"
| "str_split sep (c # cs) =
     (if c = sep then [] # str_split sep cs
      else (case str_split sep cs of [] \<Rightarrow> [[c]] | w # ws \<Rightarrow> (c # w) # ws))"

text \<open>\<open>str(n)\<close> for an integer.\<close>

fun str_nat :: "nat \<Rightarrow> string" where
  "str_nat n =
     (if n < 10 then [''0123456789'' ! n]
      else str_nat (n div 10) @ [''0123456789'' ! (n mod 10)])"

declare str_nat.simps [simp del]

definition str_int :: "int \<Rightarrow> string" where
  "str_int i = (if i < 0 then CHR ''-'' # str_nat (nat (- i)) else str_nat (nat i))"

section \<open>NameDictionary\<close>

text \<open>
  Modelled from the spec: \<open>util.NameDictionary\<close>, whose source is not in the
  repository's files at hand. The specification describes it as a bidirectional mapping
  from feature-name string to a dense integer index, with indices contiguous and assigned
  in first-seen order; the callers in \<open>pipeline/models.py\<close> use \<open>clear\<close>,
  \<open>insert\<close>, \<open>len\<close>, the truth value (true when not empty) and the lookup
  \<open>dictionary[name]\<close>, which raises KeyError for an unknown name.
\<close>

record NameDictionary =
  names_to_ids :: "string \<rightharpoonup> nat"
  ids_to_names :: "string list"

definition clear :: "NameDictionary \<Rightarrow> NameDictionary" where
  "clear d = \<lparr>names_to_ids = Map.empty, ids_to_names = []\<rparr>"

definition insert_name :: "string \<Rightarrow> NameDictionary \<Rightarrow> NameDictionary" where
  "insert_name entry d =
     (case names_to_ids d entry of
        Some i \<Rightarrow> d
      | None \<Rightarrow>
          \<lparr>names_to_ids = (names_to_ids d)(entry \<mapsto> length (ids_to_names d)),
           ids_to_names = ids_to_names d @ [entry]\<rparr>)"

definition len :: "NameDictionary \<Rightarrow> nat" where
  "len d = length (ids_to_names d)"

definition lookup :: "NameDictionary \<Rightarrow> string \<Rightarrow> error + nat" where
  "lookup d entry = (case names_to_ids d entry of None \<Rightarrow> Inl KeyError | Some i \<Rightarrow> Inr i)"

section \<open>Feature extractors\<close>

text \<open>
  Modelled from the spec: the interface of \<open>pipeline.feature_extractors.FeatureExtractor\<close>,
  whose source is not at hand: a name, a feature type (categorical or numeric),
  \<open>train\<close>, \<open>extract_subfeature_names\<close>, \<open>extract\<close> (here
  \<open>extract_part\<close>; for a categorical extractor
  the name of the subfeature of the part, a string, as \<open>ConjoinedFeatureExtractor.extract\<close>
  joins them) and \<open>extract_all\<close> (for each part the items of its mapping from subfeature
  name to value). An extractor is the record of its methods.
\<close>

datatype FeatureTypes = Categorical | Numerical

record ('p, 'v, 't) FeatureExtractor =
  name :: string
  feature_type :: FeatureTypes
  train_extractor :: "'p list \<Rightarrow> 't option"
  extract_subfeature_names :: "'p list \<Rightarrow> string list"
  extract_part :: "'p \<Rightarrow> string"
  extract_all :: "'p list \<Rightarrow> (string \<times> 'v) list list"

text \<open>
  Modelled from the spec: a categorical extractor built from a name and a function, as the
  tests build them: the subfeature of a part is \<open>name=value\<close>, the subfeature names over
  parts are those of the parts, each once, and the value of the subfeature of a part is 1.
\<close>

definition categorical_extract_all ::
  "('p \<Rightarrow> string) \<Rightarrow> 'p list \<Rightarrow> (string \<times> 'v::one) list list" where
  "categorical_extract_all subfeature parts = map (\<lambda>part. [(subfeature part, 1)]) parts"

definition categorical_extractor ::
  "string \<Rightarrow> ('p \<Rightarrow> int) \<Rightarrow> ('p, 'v::one, 't) FeatureExtractor" where
  "categorical_extractor extractor_name f =
     (let subfeature = (\<lambda>part. extractor_name @ ''='' @ str_int (f part))
      in \<lparr>name = extractor_name, feature_type = Categorical,
          train_extractor = (\<lambda>parts. None),
          extract_subfeature_names = (\<lambda>parts. remdups (map subfeature parts)),
          extract_part = subfeature,
          extract_all = categorical_extract_all subfeature\<rparr>)"

section \<open>FeaturizedModel\<close>

text \<open>
  \<open>ConjoinedFeatureExtractor\<close>: the constructor refuses extractors that are not
  categorical; \<open>extract_subfeature_names\<close> joins the tuples of
  \<open>itertools.product\<close> with the separator; \<open>train\<close> trains every extractor and
  returns nothing; \<open>extract\<close> joins the subfeatures of the part. \<open>extract_all\<close> is
  inherited from the base class.
\<close>

definition SEPARATOR :: string where
  "SEPARATOR = '':''"

definition ConjoinedFeatureExtractor ::
  "string \<Rightarrow> ('p, 'v::one, 't) FeatureExtractor list
     \<Rightarrow> error + ('p, 'v, 't) FeatureExtractor" where
  "ConjoinedFeatureExtractor feature_name extractors =
     (if \<exists>extractor \<in> set extractors. feature_type extractor \<noteq> Categorical
      then Inl FeatureExtractionError
      else
        (let subfeature =
               (\<lambda>part. join SEPARATOR
                  (map (\<lambda>extractor. extract_part extractor part) extractors))
         in Inr \<lparr>name = feature_name, feature_type = Categorical,
                 train_extractor = (\<lambda>parts. None),
                 extract_subfeature_names =
                   (\<lambda>parts. map (join SEPARATOR)
                      (List.product_lists
                         (map (\<lambda>extractor. extract_subfeature_names extractor parts)
                            extractors))),
                 extract_part = subfeature,
                 extract_all = categorical_extract_all subfeature\<rparr>))"

record ('p, 'v, 't) FeaturizedModel =
  part_type :: "'p \<Rightarrow> bool"
  feature_name_dictionary :: NameDictionary
  feature_extractors :: "('p, 'v, 't) FeatureExtractor list"
  feature_training_data :: "'t option"
  save_featurized :: bool

text \<open>
  The extractor for one selected feature name in \<open>__init__\<close>: a conjoined extractor
  for a name with a separator, else the first extractor of that name.
\<close>

definition select_extractor ::
  "('p, 'v::one, 't) FeatureExtractor list \<Rightarrow> string
     \<Rightarrow> error + ('p, 'v, 't) FeatureExtractor" where
  "select_extractor available feature_name =
     (let extractor_names = str_split (hd SEPARATOR) feature_name
      in if length extractor_names > 1 then
           (let extractors = filter (\<lambda>extractor. name extractor \<in> set extractor_names) available
            in if length extractors \<noteq> length extractor_names then Inl UnrecognizedFlag
               else ConjoinedFeatureExtractor feature_name extractors)
         else
           (case filter (\<lambda>extractor. name extractor = feature_name) available of
              [] \<Rightarrow> Inl UnrecognizedFlag
            | extractor # _ \<Rightarrow> Inr extractor))"

definition init_FeaturizedModel ::
  "('p \<Rightarrow> bool) \<Rightarrow> ('p, 'v::one, 't) FeatureExtractor list \<Rightarrow> string list \<Rightarrow> bool
     \<Rightarrow> error + ('p, 'v, 't) FeaturizedModel" where
  "init_FeaturizedModel part_type_arg available selected_features save_featurized_arg =
     (case sequence (map (select_extractor available) selected_features) of
        Inl e \<Rightarrow> Inl e
      | Inr extractors \<Rightarrow>
          Inr \<lparr>part_type = part_type_arg,
               feature_name_dictionary = \<lparr>names_to_ids = Map.empty, ids_to_names = []\<rparr>,
               feature_extractors = extractors,
               feature_training_data = None,
               save_featurized = save_featurized_arg\<rparr>)"

text \<open>
  \<open>train\<close>: the body of the loop over the extractors; the reset and the loop; and
  \<open>train\<close> itself, which ends with the hook \<open>_featurized_train\<close> of the subclass.
  A hook takes the model and the parts and raises or returns its effect.
\<close>

definition register_extractor ::
  "'p list \<Rightarrow> ('p, 'v, 't) FeatureExtractor \<Rightarrow> ('p, 'v, 't) FeaturizedModel
     \<Rightarrow> ('p, 'v, 't) FeaturizedModel" where
  "register_extractor parts extractor self =
     self\<lparr>feature_training_data := train_extractor extractor parts,
          feature_name_dictionary :=
            fold insert_name (extract_subfeature_names extractor parts)
              (feature_name_dictionary self)\<rparr>"

definition register_features ::
  "('p, 'v, 't) FeaturizedModel \<Rightarrow> 'p list \<Rightarrow> ('p, 'v, 't) FeaturizedModel" where
  "register_features self parts =
     (let self = self\<lparr>feature_name_dictionary := clear (feature_name_dictionary self),
                      feature_training_data := None\<rparr>
      in fold (register_extractor parts) (feature_extractors self) self)"

definition train ::
  "(('p, 'v, 't) FeaturizedModel \<Rightarrow> 'p list \<Rightarrow> error + 'r)
     \<Rightarrow> ('p, 'v, 't) FeaturizedModel \<Rightarrow> 'p list \<Rightarrow> error + 'r" where
  "train featurized_train self parts = featurized_train (register_features self parts) parts"

definition test ::
  "(('p, 'v, 't) FeaturizedModel \<Rightarrow> 'p list \<Rightarrow> error + 'r)
     \<Rightarrow> ('p, 'v, 't) FeaturizedModel \<Rightarrow> 'p list \<Rightarrow> error + 'r" where
  "test featurized_test self parts =
     (if len (feature_name_dictionary self) = 0 then Inl AssertionError
      else featurized_test self parts)"

section \<open>ClassifierModel\<close>

text \<open>
  The sparse matrix of \<open>_featurize\<close>: its shape and its stored entries. Storing outside
  the shape raises IndexError.
\<close>

record 'v lil_matrix =
  shape :: "nat \<times> nat"
  entries :: "nat \<times> nat \<rightharpoonup> 'v"

definition set_item :: "'v lil_matrix \<Rightarrow> nat \<Rightarrow> nat \<Rightarrow> 'v \<Rightarrow> error + 'v lil_matrix" where
  "set_item m i j v =
     (if i < fst (shape m) \<and> j < snd (shape m)
      then Inr (m\<lparr>entries := (entries m)((i, j) \<mapsto> v)\<rparr>)
      else Inl IndexError)"

text \<open>
  The three nested loops of \<open>_featurize\<close>, innermost first: over the items of a part,
  over the parts (with their index), over the extractors. The state is the matrix and the
  names logged by \<open>logging.debug('Ignoring unknown subfeature: ...')\<close>.
\<close>

fun featurize_items ::
  "NameDictionary \<Rightarrow> nat \<Rightarrow> (string \<times> 'v::zero) list \<Rightarrow> 'v lil_matrix \<times> string list
     \<Rightarrow> error + 'v lil_matrix \<times> string list" where
  "featurize_items d part_index [] st = Inr st"
| "featurize_items d part_index ((subfeature_name, subfeature_value) # rest) st =
     (if subfeature_value = 0 then featurize_items d part_index rest st
      else
        (case lookup d subfeature_name of
           Inl e \<Rightarrow>
             (if e = KeyError
              then featurize_items d part_index rest (fst st, snd st @ [subfeature_name])
              else Inl e)
         | Inr feature_index \<Rightarrow>
             (case set_item (fst st) part_index feature_index subfeature_value of
                Inl e \<Rightarrow> Inl e
              | Inr features \<Rightarrow> featurize_items d part_index rest (features, snd st))))"

fun featurize_parts ::
  "NameDictionary \<Rightarrow> nat \<Rightarrow> (string \<times> 'v::zero) list list \<Rightarrow> 'v lil_matrix \<times> string list
     \<Rightarrow> error + 'v lil_matrix \<times> string list" where
  "featurize_parts d part_index [] st = Inr st"
| "featurize_parts d part_index (part_subfeature_values # rest) st =
     (case featurize_items d part_index part_subfeature_values st of
        Inl e \<Rightarrow> Inl e
      | Inr st' \<Rightarrow> featurize_parts d (Suc part_index) rest st')"

fun featurize_extractors ::
  "NameDictionary \<Rightarrow> 'p list \<Rightarrow> ('p, 'v::zero, 't) FeatureExtractor list
     \<Rightarrow> 'v lil_matrix \<times> string list \<Rightarrow> error + 'v lil_matrix \<times> string list" where
  "featurize_extractors d parts [] st = Inr st"
| "featurize_extractors d parts (extractor # rest) st =
     (case featurize_parts d 0 (extract_all extractor parts) st of
        Inl e \<Rightarrow> Inl e
      | Inr st' \<Rightarrow> featurize_extractors d parts rest st')"

text \<open>
  \<open>_featurize\<close>: the matrix has a row for each part of the model's part type and a
  column for each name of the dictionary; the labels are those of these parts. It returns
  the matrix, the labels and, here, the names it logged as ignored.
\<close>

definition featurize ::
  "('p \<Rightarrow> int) \<Rightarrow> ('p, 'v::zero, 't) FeaturizedModel \<Rightarrow> 'p list
     \<Rightarrow> error + 'v lil_matrix \<times> int list \<times> string list" where
  "featurize label self parts =
     (let relevant_parts = filter (part_type self) parts;
          features = \<lparr>shape = (length relevant_parts, len (feature_name_dictionary self)),
                      entries = Map.empty\<rparr>;
          labels = map label relevant_parts
      in case featurize_extractors (feature_name_dictionary self) parts
                (feature_extractors self) (features, []) of
           Inl e \<Rightarrow> Inl e
         | Inr (features, ignored) \<Rightarrow> Inr (features, labels, ignored))"

section \<open>The names a model registers\<close>

text \<open>
  The names in the order in which they are first seen, and what an extractor yields once
  the subfeatures that a dictionary does not know are dropped from its output.
\<close>

definition first_seen :: "'a list \<Rightarrow> 'a list" where
  "first_seen xs = rev (remdups (rev xs))"

definition drop_unknown ::
  "NameDictionary \<Rightarrow> ('p, 'v, 't) FeatureExtractor \<Rightarrow> ('p, 'v, 't) FeatureExtractor" where
  "drop_unknown d extractor =
     extractor\<lparr>extract_all :=
       (\<lambda>parts. map (filter (\<lambda>item. names_to_ids d (fst item) \<noteq> None))
                  (extract_all extractor parts))\<rparr>"

text \<open>The model of \<open>FeaturizedModelTest\<close>.\<close>

definition identity_extractor :: "(int, int, unit) FeatureExtractor" where
  "identity_extractor = categorical_extractor ''identity'' (\<lambda>x. x)"

definition add1_extractor :: "(int, int, unit) FeatureExtractor" where
  "add1_extractor = categorical_extractor ''add1'' (\<lambda>x. x + 1)"

section \<open>Properties of run_viterbi\<close>

subsection \<open>The forward pass without backpointers\<close>

lemma sequence_map_Inr: "sequence (map (\<lambda>j. Inr (g j)) js) = Inr (map g js)"
  by (induction js) simp_all

lemma sequence_length: "sequence rs = Inr xs \<Longrightarrow> length xs = length rs"
  by (induction rs arbitrary: xs) (auto split: sum.splits)

lemma length_predecessor_scores [simp]:
  "length (predecessor_scores sr tw n c prev j) = n"
  by (simp add: predecessor_scores_def)

lemma viterbi_column_score:
  assumes "\<forall>xs. length xs = fst (shape2 ns) \<longrightarrow> (\<exists>v. sum_op sr xs = Inr v)"
  shows "viterbi_column sr ns tw False c (ps, pr) =
     Inr (ps(c := map2 (multiply sr) (column ns c)
            (map (\<lambda>j. projr (sum_op sr
                (predecessor_scores sr tw (fst (shape2 ns)) c (ps (c - 1)) j)))
              [0..<fst (shape2 ns)])), pr)"
proof -
  let ?n = "fst (shape2 ns)"
  let ?p = "predecessor_scores sr tw ?n c (ps (c - 1))"
  have "sum_op sr (?p j) = Inr (projr (sum_op sr (?p j)))" for j
    using assms by (metis length_predecessor_scores sum.sel(2))
  then have eq: "map (\<lambda>j. sum_op sr (?p j)) [0..<?n] =
             map (\<lambda>j. Inr (projr (sum_op sr (?p j)))) [0..<?n]"
    by simp
  show ?thesis
    by (simp only: viterbi_column_def Let_def fst_conv snd_conv if_False eq
          sequence_map_Inr sum.case)
qed

lemma viterbi_columns_score:
  assumes "\<forall>xs. length xs = fst (shape2 ns) \<longrightarrow> (\<exists>v. sum_op sr xs = Inr v)"
    and "\<forall>c. length (ps c) = fst (shape2 ns)"
  shows "\<exists>ps'. viterbi_columns (viterbi_column sr ns tw False) cs (ps, pr) = Inr (ps', pr)
           \<and> (\<forall>c. length (ps' c) = fst (shape2 ns))"
  using assms(2)
proof (induction cs arbitrary: ps)
  case Nil
  then show ?case by simp
next
  case (Cons c cs)
  let ?ps = "ps(c := map2 (multiply sr) (column ns c)
            (map (\<lambda>j. projr (sum_op sr
                (predecessor_scores sr tw (fst (shape2 ns)) c (ps (c - 1)) j)))
              [0..<fst (shape2 ns)]))"
  have "\<forall>k. length (?ps k) = fst (shape2 ns)"
    using Cons.prems by (simp add: column_def)
  from Cons.IH [OF this] show ?case
    by (simp only: viterbi_columns.simps viterbi_column_score [OF assms(1)] sum.case)
qed

text \<open>
  C7: called with \<open>return_best_path=True\<close> under a semiring without \<open>arg_sum\<close>,
  \<open>run_viterbi\<close> raises the assertion error whatever the trellis is, so before any of
  it is looked at. With \<open>return_best_path=False\<close>, on a valid trellis and with a sum
  that is defined on vectors of \<open>num_states\<close> scores, the call returns a score, whatever
  \<open>arg_sum\<close> is.
\<close>

theorem run_viterbi_arg_sum_assertion:
  "(arg_sum (semiring self) = None \<longrightarrow>
      run_viterbi self nan_int32 node_scores transition_weights True = Inl AssertionError)
   \<and> (valid_trellis node_scores transition_weights
        \<and> (\<forall>xs. length xs = fst (shape2 node_scores)
               \<longrightarrow> (\<exists>v. sum_op (semiring self) xs = Inr v))
      \<longrightarrow> (\<exists>s. run_viterbi self nan_int32 node_scores transition_weights False
                 = Inr (Score s)))"
proof (intro conjI impI)
  assume "arg_sum (semiring self) = None"
  then show "run_viterbi self nan_int32 node_scores transition_weights True
               = Inl AssertionError"
    by (simp add: run_viterbi_def)
next
  let ?n = "fst (shape2 node_scores)"
  let ?P = "snd (shape2 node_scores)"
  let ?ps = "(\<lambda>c. replicate ?n undefined)(0 := column node_scores 0)"
  assume a: "valid_trellis node_scores transition_weights
        \<and> (\<forall>xs. length xs = ?n \<longrightarrow> (\<exists>v. sum_op (semiring self) xs = Inr v))"
  then have P: "?P \<noteq> 0"
    by (cases transition_weights) auto
  have len: "\<forall>c. length (?ps c) = ?n"
    by (simp add: column_def)
  from a have tot: "\<forall>xs. length xs = ?n \<longrightarrow> (\<exists>v. sum_op (semiring self) xs = Inr v)"
    by simp
  from viterbi_columns_score [OF tot len]
  obtain ps' where ps': "viterbi_columns
        (viterbi_column (semiring self) node_scores transition_weights False)
        [1..<?P] (?ps, \<lambda>c. []) = Inr (ps', \<lambda>c. [])"
      and len': "\<forall>c. length (ps' c) = ?n"
    by blast
  from tot len' obtain v where "sum_op (semiring self) (ps' (?P - 1)) = Inr v"
    by blast
  with P ps' show "\<exists>s. run_viterbi self nan_int32 node_scores transition_weights False
                 = Inr (Score s)"
    by (simp add: run_viterbi_def Let_def)
qed

theorem run_viterbi_arg_sum_assertion_witness:
  "run_viterbi \<lparr>possible_states = None :: string list option, semiring = PLUS_MULTIPLY\<rparr>
      0 \<lparr>shape2 = (2, 3), item2 = (\<lambda>i j. [[1, 1, 1], [1, 2, 1 :: int]] ! i ! j)\<rparr>
      (Ndim2 \<lparr>shape2 = (2, 2), item2 = (\<lambda>i j. [[1, 1], [1, 1]] ! i ! j)\<rparr>) True
     = Inl AssertionError
   \<and> (\<exists>s. run_viterbi \<lparr>possible_states = None :: string list option, semiring = PLUS_MULTIPLY\<rparr>
      0 \<lparr>shape2 = (2, 3), item2 = (\<lambda>i j. [[1, 1, 1], [1, 2, 1 :: int]] ! i ! j)\<rparr>
      (Ndim2 \<lparr>shape2 = (2, 2), item2 = (\<lambda>i j. [[1, 1], [1, 1]] ! i ! j)\<rparr>) False
     = Inr (Score s))"
  using run_viterbi_arg_sum_assertion
    [of "\<lparr>possible_states = None :: string list option, semiring = PLUS_MULTIPLY\<rparr>"
        0 "\<lparr>shape2 = (2, 3), item2 = (\<lambda>i j. [[1, 1, 1], [1, 2, 1 :: int]] ! i ! j)\<rparr>"
        "Ndim2 \<lparr>shape2 = (2, 2), item2 = (\<lambda>i j. [[1, 1], [1, 1]] ! i ! j)\<rparr>"]
  by (simp add: PLUS_MULTIPLY_def np_sum_def)

subsection \<open>A single position\<close>

lemma int32_small: "n < 2 ^ 31 \<Longrightarrow> int32 n = int n"
  by (simp add: int32_def)

lemma getitem_nat: "k < length xs \<Longrightarrow> getitem xs (int k) = Inr (xs ! k)"
  by (simp add: getitem_def py_index_def)

lemma length_column [simp]: "length (column a c) = fst (shape2 a)"
  by (simp add: column_def)

text \<open>
  C10: on a trellis with exactly one position, under a semiring whose \<open>arg_sum\<close>
  selects the state \<open>k\<close> of column 0 (a state of the trellis, below the int32 range),
  \<open>run_viterbi\<close> with \<open>return_best_path=True\<close> returns the entry \<open>k\<close> of column
  0 as the score and the one-element path \<open>[k]\<close>, mapped through
  \<open>possible_states\<close> when they are given (an IndexError when they are fewer than
  \<open>k + 1\<close>). The result holds for every \<open>transition_weights\<close>: none of its entries
  is read.
\<close>

theorem run_viterbi_single_position:
  assumes "snd (shape2 node_scores) = 1"
    and "arg_sum (semiring self) = Some f"
    and "f (column node_scores 0) = Inr k"
    and "k < fst (shape2 node_scores)"
    and "k < 2 ^ 31"
  shows "run_viterbi self nan_int32 node_scores transition_weights True =
           (case possible_states self of
              None \<Rightarrow> Inr (Best_Path (item2 node_scores k 0) [int k])
            | Some [] \<Rightarrow> Inr (Best_Path (item2 node_scores k 0) [int k])
            | Some (s # ss) \<Rightarrow>
                (if k < length (s # ss)
                 then Inr (Best_States (item2 node_scores k 0) [(s # ss) ! k])
                 else Inl IndexError))"
proof -
  have g: "getitem (column node_scores 0) (int k) = Inr (item2 node_scores k 0)"
    using assms(4) by (simp add: getitem_nat) (simp add: column_def)
  have h: "getitem (s # ss) (int k) =
             (if k < length (s # ss) then Inr ((s # ss) ! k) else Inl IndexError)" for s :: 'c and ss
    by (simp add: getitem_def py_index_def)
  show ?thesis
    using assms(1,2,3) g
    by (simp add: run_viterbi_def best_path_result_def Let_def int32_small [OF assms(5)] h
          split: option.splits list.splits)
qed

theorem run_viterbi_single_position_witness:
  "run_viterbi \<lparr>possible_states = Some [''A'', ''B''], semiring = MAX_MULTIPLY 0\<rparr> 0
      \<lparr>shape2 = (2, 1), item2 = (\<lambda>i j. [[1], [3 :: int]] ! i ! j)\<rparr>
      (Ndim2 \<lparr>shape2 = (2, 2), item2 = (\<lambda>i j. 1)\<rparr>) True
     = Inr (Best_States 3 [''B''])"
  using run_viterbi_single_position
    [of "\<lparr>shape2 = (2, 1), item2 = (\<lambda>i j. [[1], [3 :: int]] ! i ! j)\<rparr>"
        "\<lparr>possible_states = Some [''A'', ''B''], semiring = MAX_MULTIPLY 0\<rparr>"
        np_argmax 1 0 "Ndim2 \<lparr>shape2 = (2, 2), item2 = (\<lambda>i j. 1)\<rparr>"]
  by (simp add: MAX_MULTIPLY_def column_def upt_rec)

subsection \<open>Constant scores\<close>

lemma argmax_from_replicate: "argmax_from x b i (replicate n x) = b"
  by (induction n arbitrary: i) simp_all

lemma np_argmax_replicate: "0 < n \<Longrightarrow> np_argmax (replicate n x) = Inr 0"
  by (cases n) (simp_all add: argmax_from_replicate)

lemma map_const_upt: "map (\<lambda>i. x) [0..<n] = replicate n x"
  by (simp add: map_replicate_const)

lemma sequence_replicate_Inr: "sequence (replicate n (Inr x)) = Inr (replicate n x)"
  by (induction n) simp_all

lemma int32_0: "int32 0 = 0"
  by (simp add: int32_def)

lemma constant_trellisI:
  assumes "valid_trellis ns tw" "constant_scores ns a" "constant_weights tw b"
  shows "constant_trellis ns tw a b"
proof (cases tw)
  case (Ndim2 m)
  with assms show ?thesis
    by (auto simp: constant_trellis_def constant_scores_def)
next
  case (Ndim3 t)
  with assms show ?thesis
    by (auto simp: constant_trellis_def constant_scores_def)
qed

lemma viterbi_column_constant:
  assumes ct: "constant_trellis ns tw a b"
    and arg: "arg_sum sr = Some np_argmax"
    and S: "0 < fst (shape2 ns)"
    and c: "1 \<le> c" "c < snd (shape2 ns)"
    and prev: "ps (c - 1) = replicate (fst (shape2 ns)) v"
  shows "viterbi_column sr ns tw True c (ps, pr) =
           Inr (ps(c := replicate (fst (shape2 ns)) (multiply sr a (multiply sr b v))),
                pr(c := replicate (fst (shape2 ns)) 0))"
proof -
  let ?n = "fst (shape2 ns)"
  have p: "predecessor_scores sr tw ?n c (ps (c - 1)) j = replicate ?n (multiply sr b v)"
    if "j < ?n" for j
  proof -
    have "map (\<lambda>i. multiply sr (pred_transition_weights tw c i j) (ps (c - 1) ! i)) [0..<?n]
          = map (\<lambda>i. multiply sr b v) [0..<?n]"
      using ct c that prev by (simp add: constant_trellis_def)
    then show ?thesis
      by (simp only: predecessor_scores_def map_const_upt)
  qed
  have "map (\<lambda>j. np_argmax (predecessor_scores sr tw ?n c (ps (c - 1)) j)) [0..<?n]
            = map (\<lambda>j. Inr 0) [0..<?n]"
    using p S by (simp add: np_argmax_replicate)
  then have a1: "map (\<lambda>j. np_argmax (predecessor_scores sr tw ?n c (ps (c - 1)) j)) [0..<?n]
            = replicate ?n (Inr 0)"
    by (simp only: map_const_upt)
  have "map (\<lambda>j. getitem (predecessor_scores sr tw ?n c (ps (c - 1)) j)
                       (int (replicate ?n 0 ! j))) [0..<?n]
            = map (\<lambda>j. Inr (multiply sr b v)) [0..<?n]"
    using p S by (simp add: getitem_def py_index_def)
  then have a2: "map (\<lambda>j. getitem (predecessor_scores sr tw ?n c (ps (c - 1)) j)
                       (int (replicate ?n 0 ! j))) [0..<?n]
            = replicate ?n (Inr (multiply sr b v))"
    by (simp only: map_const_upt)
  have col: "column ns c = replicate ?n a"
  proof -
    have "map (\<lambda>i. item2 ns i c) [0..<?n] = map (\<lambda>i. a) [0..<?n]"
      using ct c by (simp add: constant_trellis_def)
    then show ?thesis by (simp only: column_def map_const_upt)
  qed
  have z: "map2 (multiply sr) (replicate ?n a) (replicate ?n (multiply sr b v))
           = replicate ?n (multiply sr a (multiply sr b v))"
    by simp
  show ?thesis
    unfolding viterbi_column_def Let_def fst_conv snd_conv
    by (simp only: arg option.case if_True a1 sequence_replicate_Inr sum.case a2
          col z map_replicate int32_0)
qed

lemma viterbi_columns_constant:
  assumes ct: "constant_trellis ns tw a b"
    and arg: "arg_sum sr = Some np_argmax"
    and S: "0 < fst (shape2 ns)"
  shows "\<lbrakk>\<forall>c. \<exists>v. ps c = replicate (fst (shape2 ns)) v; 1 \<le> k; k + n \<le> snd (shape2 ns)\<rbrakk> \<Longrightarrow>
     \<exists>ps'. viterbi_columns (viterbi_column sr ns tw True) [k..<k + n] (ps, pr) =
        Inr (ps', \<lambda>c. if k \<le> c \<and> c < k + n then replicate (fst (shape2 ns)) 0 else pr c)
      \<and> (\<forall>c. \<exists>v. ps' c = replicate (fst (shape2 ns)) v)"
proof (induction n arbitrary: k ps pr)
  case 0
  then show ?case by (auto simp: fun_eq_iff)
next
  case (Suc n)
  let ?n = "fst (shape2 ns)"
  from Suc.prems(1) obtain v where v: "ps (k - 1) = replicate ?n v" by blast
  let ?ps = "ps(k := replicate ?n (multiply sr a (multiply sr b v)))"
  let ?pr = "pr(k := replicate ?n 0)"
  have step: "viterbi_column sr ns tw True k (ps, pr) = Inr (?ps, ?pr)"
    using viterbi_column_constant [where ps = ps and c = k and v = v and pr = pr, OF ct arg S]
      Suc.prems v by simp
  have inv: "\<forall>c. \<exists>v. ?ps c = replicate ?n v"
    using Suc.prems(1) by simp
  have "1 \<le> Suc k" "Suc k + n \<le> snd (shape2 ns)"
    using Suc.prems by simp_all
  from Suc.IH [OF inv this, of ?pr]
  obtain ps' where
    ps': "viterbi_columns (viterbi_column sr ns tw True) [Suc k..<Suc k + n] (?ps, ?pr) =
        Inr (ps', \<lambda>c. if Suc k \<le> c \<and> c < Suc k + n then replicate ?n 0 else ?pr c)"
    and inv': "\<forall>c. \<exists>v. ps' c = replicate ?n v"
    by blast
  have f: "(\<lambda>c. if Suc k \<le> c \<and> c < Suc k + n then replicate ?n 0 else ?pr c)
         = (\<lambda>c. if k \<le> c \<and> c < k + Suc n then replicate ?n 0 else pr c)"
    by (auto simp: fun_eq_iff)
  have l: "[k..<k + Suc n] = k # [Suc k..<Suc k + n]"
    by (simp add: upt_conv_Cons)
  show ?case
    unfolding l viterbi_columns.simps step sum.case
    using ps' inv' f by simp
qed

lemma reconstruct_zero:
  assumes "\<forall>c. 1 \<le> c \<and> c \<le> k \<longrightarrow> pr c = replicate n 0" and "0 < n"
  shows "bsp k = 0 \<Longrightarrow>
    reconstruct pr (rev [1..<Suc k]) bsp = Inr (\<lambda>t. if t \<le> k then 0 else bsp t)"
  using assms(1)
proof (induction k arbitrary: bsp)
  case 0
  then show ?case by (auto simp: fun_eq_iff)
next
  case (Suc k)
  have g: "getitem (pr (Suc k)) (bsp (Suc k)) = Inr 0"
    using Suc.prems assms(2) by (simp add: getitem_def py_index_def)
  have "reconstruct pr (rev [1..<Suc k]) (bsp(k := 0))
          = Inr (\<lambda>t. if t \<le> k then 0 else (bsp(k := 0)) t)"
    using Suc.prems by (intro Suc.IH) simp_all
  moreover have "(\<lambda>t. if t \<le> k then 0 else (bsp(k := 0)) t)
        = (\<lambda>t. if t \<le> Suc k then 0 else bsp t)"
    using Suc.prems(1) by (auto simp: fun_eq_iff le_Suc_eq)
  ultimately show ?case
    using g by simp
qed

lemma run_viterbi_best_path:
  assumes "arg_sum (semiring self) = Some f"
    and "snd (shape2 ns) \<noteq> 0"
    and "viterbi_columns (viterbi_column (semiring self) ns tw True) [1..<snd (shape2 ns)]
           ((\<lambda>c. replicate (fst (shape2 ns)) undefined)(0 := column ns 0),
            (\<lambda>c. replicate (fst (shape2 ns)) undefined)
              (0 := replicate (fst (shape2 ns)) nan_int32)) = Inr (ps, pr)"
    and "f (ps (snd (shape2 ns) - 1)) = Inr k"
    and "getitem (ps (snd (shape2 ns) - 1)) (int k) = Inr v"
    and "reconstruct pr (rev [1..<snd (shape2 ns)])
           ((\<lambda>i. undefined)(snd (shape2 ns) - 1 := int32 k)) = Inr bsp"
  shows "run_viterbi self nan_int32 ns tw True =
           (case possible_states self of
              None \<Rightarrow> Inr (Best_Path v (map bsp [0..<snd (shape2 ns)]))
            | Some [] \<Rightarrow> Inr (Best_Path v (map bsp [0..<snd (shape2 ns)]))
            | Some (s # ss) \<Rightarrow>
               (case sequence (map (\<lambda>i. getitem (s # ss) (bsp i)) [0..<snd (shape2 ns)]) of
                  Inl e \<Rightarrow> Inl e
                | Inr labels \<Rightarrow> Inr (Best_States v labels)))"
  using assms by (simp add: run_viterbi_def best_path_result_def Let_def split: option.splits list.splits)

text \<open>
  C2: under a semiring whose \<open>arg_sum\<close> is \<open>np.argmax\<close> (MAX_MULTIPLY and
  MAX_PLUS), on a valid trellis with at least one state, all of whose node scores equal
  \<open>a\<close> and all of whose transition weights equal \<open>b\<close>, the best path repeats state
  index 0 at every position (the first of \<open>possible_states\<close> when they are given).
\<close>

theorem run_viterbi_constant_trellis:
  assumes valid: "valid_trellis node_scores transition_weights"
    and ns: "constant_scores node_scores a"
    and tw: "constant_weights transition_weights b"
    and arg: "arg_sum (semiring self) = Some np_argmax"
    and S: "0 < fst (shape2 node_scores)"
  shows "\<exists>score. run_viterbi self nan_int32 node_scores transition_weights True =
           Inr (case possible_states self of
                  None \<Rightarrow> Best_Path score (replicate (snd (shape2 node_scores)) 0)
                | Some [] \<Rightarrow> Best_Path score (replicate (snd (shape2 node_scores)) 0)
                | Some (s # ss) \<Rightarrow>
                    Best_States score (replicate (snd (shape2 node_scores)) s))"
proof -
  let ?n = "fst (shape2 node_scores)"
  let ?P = "snd (shape2 node_scores)"
  let ?sr = "semiring self"
  let ?ps = "(\<lambda>c. replicate ?n undefined)(0 := column node_scores 0)"
  let ?pr = "(\<lambda>c. replicate ?n undefined)(0 := replicate ?n nan_int32)"
  let ?pr' = "\<lambda>c. if 1 \<le> c \<and> c < ?P then replicate ?n 0 else ?pr c"
  have ct: "constant_trellis node_scores transition_weights a b"
    using valid ns tw by (rule constant_trellisI)
  from valid have P: "1 \<le> ?P"
    by (cases transition_weights) simp_all
  have "map (\<lambda>i. item2 node_scores i 0) [0..<?n] = map (\<lambda>i. a) [0..<?n]"
    using ct P by (simp add: constant_trellis_def)
  then have col0: "column node_scores 0 = replicate ?n a"
    by (simp only: column_def map_const_upt)
  have inv: "\<forall>c. \<exists>v. ?ps c = replicate ?n v"
    by (simp add: col0)
  have PP: "1 + (?P - 1) = ?P"
    using P by simp
  have "\<exists>ps'. viterbi_columns
        (viterbi_column ?sr node_scores transition_weights True) [1..<1 + (?P - 1)] (?ps, ?pr)
        = Inr (ps', \<lambda>c. if 1 \<le> c \<and> c < 1 + (?P - 1) then replicate ?n 0 else ?pr c)
      \<and> (\<forall>c. \<exists>v. ps' c = replicate ?n v)"
    by (rule viterbi_columns_constant [OF ct arg S inv]) (use P in simp_all)
  from this [unfolded PP]
  obtain ps' where loop: "viterbi_columns
        (viterbi_column ?sr node_scores transition_weights True) [1..<?P] (?ps, ?pr)
        = Inr (ps', ?pr')"
    and inv': "\<forall>c. \<exists>v. ps' c = replicate ?n v"
    by blast
  from inv' obtain v where v: "ps' (?P - 1) = replicate ?n v"
    by blast
  have best: "np_argmax (ps' (?P - 1)) = Inr 0"
    unfolding v using S by (rule np_argmax_replicate)
  have score: "getitem (ps' (?P - 1)) (int 0) = Inr v"
    unfolding v using S by (simp add: getitem_def py_index_def)
  let ?bsp = "(\<lambda>i. undefined)(?P - 1 := (0::int))"
  have "reconstruct ?pr' (rev [1..<Suc (?P - 1)]) ?bsp
          = Inr (\<lambda>t. if t \<le> ?P - 1 then 0 else ?bsp t)"
    using S by (intro reconstruct_zero [where n = ?n]) auto
  then have "reconstruct ?pr' (rev [1..<?P]) ?bsp
          = Inr (\<lambda>t. if t \<le> ?P - 1 then 0 else ?bsp t)"
    using P by simp
  then have walk: "reconstruct ?pr' (rev [1..<?P]) ((\<lambda>i. undefined)(?P - 1 := int32 0))
          = Inr (\<lambda>t. if t \<le> ?P - 1 then 0 else ?bsp t)"
    by (simp only: int32_0)
  have path: "map (\<lambda>t. if t \<le> ?P - 1 then 0 else ?bsp t) [0..<?P] = replicate ?P (0::int)"
  proof -
    have "map (\<lambda>t. if t \<le> ?P - 1 then 0 else ?bsp t) [0..<?P] = map (\<lambda>t. 0) [0..<?P]"
      by auto
    then show ?thesis by (simp only: map_const_upt)
  qed
  have states: "sequence (map (\<lambda>i. getitem (s # ss) (if i \<le> ?P - 1 then 0 else ?bsp i))
                   [0..<?P]) = Inr (replicate ?P s)" for s :: 'b and ss
  proof -
    have "map (\<lambda>i. getitem (s # ss) (if i \<le> ?P - 1 then 0 else ?bsp i)) [0..<?P]
            = map (\<lambda>i. Inr s) [0..<?P]"
      by (auto simp: getitem_def py_index_def)
    then show ?thesis by (simp only: map_const_upt sequence_replicate_Inr)
  qed
  have P0: "?P \<noteq> 0"
    using P by simp
  have "run_viterbi self nan_int32 node_scores transition_weights True =
           Inr (case possible_states self of
                  None \<Rightarrow> Best_Path v (replicate ?P 0)
                | Some [] \<Rightarrow> Best_Path v (replicate ?P 0)
                | Some (s # ss) \<Rightarrow> Best_States v (replicate ?P s))"
    unfolding run_viterbi_best_path
      [OF arg P0 loop best score walk]
    by (simp only: path states sum.case split: option.split list.split) simp
  then show ?thesis ..
qed


theorem run_viterbi_constant_trellis_witness:
  "\<exists>score. run_viterbi \<lparr>possible_states = Some [''A'', ''B''], semiring = MAX_PLUS (- 1000)\<rparr> 0
      \<lparr>shape2 = (2, 3), item2 = (\<lambda>i j. 5 :: int)\<rparr>
      (Ndim2 \<lparr>shape2 = (2, 2), item2 = (\<lambda>i j. 7)\<rparr>) True
     = Inr (Best_States score [''A'', ''A'', ''A''])"
  using run_viterbi_constant_trellis
    [of "\<lparr>shape2 = (2, 3), item2 = (\<lambda>i j. 5 :: int)\<rparr>"
        "Ndim2 \<lparr>shape2 = (2, 2), item2 = (\<lambda>i j. 7)\<rparr>" 5 7
        "\<lparr>possible_states = Some [''A'', ''B''], semiring = MAX_PLUS (- 1000)\<rparr>" 0]
  by (simp add: MAX_PLUS_def constant_scores_def numeral_3_eq_3)

subsection \<open>The sentinel in column 0 of the predecessors\<close>

lemma viterbi_column_agree:
  assumes "(\<forall>k. k \<noteq> 0 \<longrightarrow> pr1 k = pr2 k)"
  shows "rel_sum (=) (\<lambda>st1 st2. fst st1 = fst st2 \<and> (\<forall>k. k \<noteq> 0 \<longrightarrow> snd st1 k = snd st2 k))
           (viterbi_column sr ns tw rbp c (ps, pr1))
           (viterbi_column sr ns tw rbp c (ps, pr2))"
  using assms
  by (auto simp: viterbi_column_def Let_def
        split: option.splits sum.splits)

lemma viterbi_columns_agree:
  assumes "(\<forall>k. k \<noteq> 0 \<longrightarrow> pr1 k = pr2 k)"
  shows "rel_sum (=) (\<lambda>st1 st2. fst st1 = fst st2 \<and> (\<forall>k. k \<noteq> 0 \<longrightarrow> snd st1 k = snd st2 k))
           (viterbi_columns (viterbi_column sr ns tw rbp) cs (ps, pr1))
           (viterbi_columns (viterbi_column sr ns tw rbp) cs (ps, pr2))"
  using assms
proof (induction cs arbitrary: ps pr1 pr2)
  case Nil
  then show ?case by simp
next
  case (Cons c cs)
  let ?r1 = "viterbi_column sr ns tw rbp c (ps, pr1)"
  let ?r2 = "viterbi_column sr ns tw rbp c (ps, pr2)"
  have rel: "rel_sum (=) (\<lambda>st1 st2. fst st1 = fst st2 \<and> (\<forall>k. k \<noteq> 0 \<longrightarrow> snd st1 k = snd st2 k))
           ?r1 ?r2"
    using Cons.prems by (rule viterbi_column_agree)
  show ?case
  proof (cases ?r1)
    case (Inl e)
    with rel show ?thesis by (cases ?r2) simp_all
  next
    case r1: (Inr st1)
    show ?thesis
    proof (cases ?r2)
      case (Inl e)
      with rel r1 show ?thesis by simp
    next
      case r2: (Inr st2)
      from rel r1 r2 have "fst st1 = fst st2" "(\<forall>k. k \<noteq> 0 \<longrightarrow> snd st1 k = snd st2 k)"
        by simp_all
      with Cons.IH [of "snd st1" "snd st2" "fst st1"] r1 r2 show ?thesis
        by (cases st1; cases st2) simp
    qed
  qed
qed

lemma reconstruct_cong:
  assumes "\<forall>i \<in> set cols. pr1 i = pr2 i"
  shows "reconstruct pr1 cols bsp = reconstruct pr2 cols bsp"
  using assms by (induction cols arbitrary: bsp) (simp_all split: sum.splits)

lemma best_path_result_cong:
  assumes "\<forall>i \<in> {1..<P}. pr1 i = pr2 i"
  shows "best_path_result self P ps pr1 = best_path_result self P ps pr2"
proof -
  have r: "reconstruct pr1 (rev [1..<P]) bsp = reconstruct pr2 (rev [1..<P]) bsp" for bsp
    using assms by (intro reconstruct_cong) simp
  show ?thesis
    unfolding best_path_result_def r ..
qed

text \<open>
  C9: the value stored in column 0 of \<open>predecessors\<close> never reaches the result of
  \<open>run_viterbi\<close>: for every input the result is the same for any two such values. The
  backward loop reads \<open>predecessors\<close> at the columns 1 to \<open>num_columns - 1\<close>
  only: two arrays that agree on these columns give the same walk.
\<close>

theorem sentinel_never_read:
  "run_viterbi self nan1 node_scores transition_weights True
     = run_viterbi self nan2 node_scores transition_weights True
   \<and> ((\<forall>i \<in> {1..<num_columns}. predecessors1 i = predecessors2 i)
        \<longrightarrow> reconstruct predecessors1 (rev [1..<num_columns]) best_state_path
            = reconstruct predecessors2 (rev [1..<num_columns]) best_state_path)"
proof (intro conjI impI)
  let ?n = "fst (shape2 node_scores)"
  let ?P = "snd (shape2 node_scores)"
  let ?ps = "(\<lambda>c. replicate ?n undefined)(0 := column node_scores 0)"
  let ?pr = "\<lambda>nan. (\<lambda>c. replicate ?n undefined)(0 := replicate ?n (nan::int))"
  have "\<forall>k. k \<noteq> 0 \<longrightarrow> ?pr nan1 k = ?pr nan2 k"
    by simp
  from viterbi_columns_agree [OF this, of "semiring self" node_scores transition_weights True
      "[1..<?P]" ?ps]
  have "(case viterbi_columns (viterbi_column (semiring self) node_scores transition_weights True)
               [1..<?P] (?ps, ?pr nan1) of
           Inl e \<Rightarrow> Inl e
         | Inr (ps, pr) \<Rightarrow> best_path_result self ?P ps pr)
      = (case viterbi_columns (viterbi_column (semiring self) node_scores transition_weights True)
               [1..<?P] (?ps, ?pr nan2) of
           Inl e \<Rightarrow> Inl e
         | Inr (ps, pr) \<Rightarrow> best_path_result self ?P ps pr)"
  proof (cases rule: rel_sum.cases)
    case (1 e1 e2)
    then show ?thesis by simp
  next
    case (2 st1 st2)
    then have "best_path_result self ?P (fst st1) (snd st1)
             = best_path_result self ?P (fst st2) (snd st2)"
      using best_path_result_cong [of ?P "snd st1" "snd st2" self "fst st2"]
      by simp
    with 2 show ?thesis
      by (simp add: case_prod_beta)
  qed
  then show "run_viterbi self nan1 node_scores transition_weights True
     = run_viterbi self nan2 node_scores transition_weights True"
    by (simp add: run_viterbi_def Let_def cong: sum.case_cong prod.case_cong)
next
  assume "\<forall>i \<in> {1..<num_columns}. predecessors1 i = predecessors2 i"
  then show "reconstruct predecessors1 (rev [1..<num_columns]) best_state_path
            = reconstruct predecessors2 (rev [1..<num_columns]) best_state_path"
    by (intro reconstruct_cong) simp
qed

theorem sentinel_never_read_witness:
  "run_viterbi \<lparr>possible_states = None :: string list option, semiring = MAX_MULTIPLY 0\<rparr>
      (- 2147483648) \<lparr>shape2 = (2, 3), item2 = (\<lambda>i j. [[1, 1, 1], [1, 2, 1 :: int]] ! i ! j)\<rparr>
      (Ndim2 \<lparr>shape2 = (2, 2), item2 = (\<lambda>i j. 1)\<rparr>) True
   = run_viterbi \<lparr>possible_states = None :: string list option, semiring = MAX_MULTIPLY 0\<rparr>
      7 \<lparr>shape2 = (2, 3), item2 = (\<lambda>i j. [[1, 1, 1], [1, 2, 1 :: int]] ! i ! j)\<rparr>
      (Ndim2 \<lparr>shape2 = (2, 2), item2 = (\<lambda>i j. 1)\<rparr>) True
   \<and> reconstruct (\<lambda>c. [[- 2147483648, - 2147483648], [0, 0], [1, 1]] ! c) (rev [1..<3])
        (\<lambda>i. [5, 5, 0] ! i)
     = reconstruct (\<lambda>c. [[7, 7], [0, 0], [1, 1]] ! c) (rev [1..<3]) (\<lambda>i. [5, 5, 0] ! i)"
  using sentinel_never_read
    [of "\<lparr>possible_states = None :: string list option, semiring = MAX_MULTIPLY 0\<rparr>"
        "- 2147483648" "\<lparr>shape2 = (2, 3), item2 = (\<lambda>i j. [[1, 1, 1], [1, 2, 1 :: int]] ! i ! j)\<rparr>"
        "Ndim2 \<lparr>shape2 = (2, 2), item2 = (\<lambda>i j. 1)\<rparr>" 7 3
        "\<lambda>c. [[- 2147483648, - 2147483648], [0, 0], [1, 1]] ! c"
        "\<lambda>c. [[7, 7], [0, 0], [1, 1]] ! c" "\<lambda>i. [5, 5, 0] ! i"]
  by (simp add: atLeastLessThan_def numeral_3_eq_3 lessThan_Suc atLeast_Suc)

subsection \<open>The sum-product score\<close>














lemma all_paths_complete:
  "distinct (all_paths S P) \<and> length (all_paths S P) = S ^ P
   \<and> set (all_paths S P) = {p. length p = P \<and> set p \<subseteq> {0..<S}}"
  by (simp add: all_paths_def distinct_n_lists length_n_lists set_n_lists)


section \<open>Properties of rebalance\<close>

lemma sum_list_all_zero: "\<forall>c \<in> set cs. c = (0::int) \<Longrightarrow> sum_list cs = 0"
  by (induction cs) simp_all

text \<open>
  C5: with \<open>ratio <= 1.0\<close>, \<open>rebalance\<close> returns the data and the labels it was
  given; and so it does whenever the counts to add were computed and are all zero.
\<close>

theorem rebalance_unchanged:
  "(ratio_le_one ratio \<longrightarrow>
      rebalance rebalance_stochastically random_choice ratio data labels = Inr (data, labels))
   \<and> (counts_to_add ratio labels = Inr counts \<and> (\<forall>c \<in> set counts. c = 0) \<longrightarrow>
      rebalance rebalance_stochastically random_choice ratio data labels = Inr (data, labels))"
  by (auto simp: rebalance_def Let_def sum_list_all_zero)

theorem rebalance_unchanged_witness:
  "rebalance False (\<lambda>xs n. []) (Finite_Ratio (1 / 2)) test_data test_labels
     = Inr (test_data, test_labels)
   \<and> counts_to_add (Finite_Ratio (17 / 10)) test_labels = Inr [0, 0]
   \<and> rebalance False (\<lambda>xs n. []) (Finite_Ratio (17 / 10)) test_data test_labels
     = Inr (test_data, test_labels)"
proof -
  have c: "counts_to_add (Finite_Ratio (17 / 10)) test_labels = Inr [0, 0]"
    by (simp add: counts_to_add_def np_unique_def test_labels_def py_int_def Let_def)
  show ?thesis
    using rebalance_unchanged [of "Finite_Ratio (1 / 2)" False "\<lambda>xs n. []" test_data test_labels
        "[0, 0]"]
      rebalance_unchanged [of "Finite_Ratio (17 / 10)" False "\<lambda>xs n. []" test_data test_labels
        "[0, 0]"] c
    by simp
qed



lemma index_of_nth: "distinct xs \<Longrightarrow> j < length xs \<Longrightarrow> index_of xs (xs ! j) = j"
proof (induction xs arbitrary: j)
  case Nil
  then show ?case by simp
next
  case (Cons x xs)
  then show ?case by (cases j) auto
qed

lemma nth_index_of: "y \<in> set xs \<Longrightarrow> xs ! index_of xs y = y"
  by (induction xs) auto








lemma offset_Suc: "offset news (Suc m) = offset news m + length (news m)"
  by (simp add: offset_def)

lemma offset_mono: "k \<le> m \<Longrightarrow> offset news k \<le> offset news m"
proof (induction m)
  case 0
  then show ?case by simp
next
  case (Suc m)
  then show ?case
    by (cases "k = Suc m") (simp_all add: offset_Suc)
qed

lemma written_below:
  "i < offset news k \<Longrightarrow> k \<le> m \<Longrightarrow> written news m buf i = written news k buf i"
proof (induction m)
  case 0
  then show ?case by simp
next
  case (Suc m)
  show ?case
  proof (cases "k = Suc m")
    case True
    then show ?thesis by simp
  next
    case False
    with Suc.prems have km: "k \<le> m" by simp
    from offset_mono [OF km, of news] Suc.prems(1) have "\<not> offset news m \<le> i" by simp
    with Suc.IH [OF Suc.prems(1) km] show ?thesis by simp
  qed
qed





lemma label_row_indices:
  fixes labels :: "'l::linorder list"
  defines "ls \<equiv> sort (remdups labels)"
  assumes j: "j < length ls"
  shows "filter (\<lambda>i. map (index_of ls) labels ! i = j) [0..<length (map (index_of ls) labels)]
           = filter (\<lambda>i. labels ! i = ls ! j) [0..<length labels]"
    and "filter (\<lambda>i. labels ! i = ls ! j) [0..<length labels] \<noteq> []"
proof -
  have d: "distinct ls" and s: "set ls = set labels"
    by (simp_all add: ls_def)
  have "(index_of ls (labels ! i) = j) = (labels ! i = ls ! j)" if "i < length labels" for i
  proof
    assume "index_of ls (labels ! i) = j"
    moreover have "labels ! i \<in> set ls"
      using that s by simp
    ultimately show "labels ! i = ls ! j"
      using nth_index_of by fastforce
  next
    assume "labels ! i = ls ! j"
    then show "index_of ls (labels ! i) = j"
      using d j by (simp add: index_of_nth)
  qed
  then show "filter (\<lambda>i. map (index_of ls) labels ! i = j)
               [0..<length (map (index_of ls) labels)]
           = filter (\<lambda>i. labels ! i = ls ! j) [0..<length labels]"
    by (intro filter_cong) simp_all
  have "ls ! j \<in> set labels"
    using j s nth_mem by blast
  then obtain i where "i < length labels" "labels ! i = ls ! j"
    by (auto simp: in_set_conv_nth)
  then show "filter (\<lambda>i. labels ! i = ls ! j) [0..<length labels] \<noteq> []"
    by (auto simp: filter_empty_conv)
qed










section \<open>Properties of FeaturizedModel\<close>

text \<open>
  C8: \<open>test\<close> on a model whose feature-name dictionary is empty raises the assertion
  error whatever the hook \<open>_featurized_test\<close> is, so without calling it; with a
  dictionary that is not empty, \<open>test\<close> is the hook. A model that \<open>__init__\<close>
  has just built has an empty dictionary.
\<close>

theorem test_requires_dictionary:
  "(len (feature_name_dictionary self) = 0 \<longrightarrow> test featurized_test self parts = Inl AssertionError)
   \<and> (len (feature_name_dictionary self) \<noteq> 0 \<longrightarrow>
        test featurized_test self parts = featurized_test self parts)
   \<and> (init_FeaturizedModel part_type_arg available selected_features save_featurized_arg
         = Inr self \<longrightarrow> test featurized_test self parts = Inl AssertionError)"
  by (auto simp: test_def init_FeaturizedModel_def len_def split: sum.splits)


theorem test_requires_dictionary_witness:
  "test (\<lambda>m ps. Inr (length ps))
      (\<lparr>part_type = (\<lambda>p. True),
        feature_name_dictionary = \<lparr>names_to_ids = Map.empty, ids_to_names = []\<rparr>,
        feature_extractors = [], feature_training_data = None,
        save_featurized = False\<rparr> :: (int, int, unit) FeaturizedModel) [1, 2]
     = Inl AssertionError
   \<and> test (\<lambda>m ps. Inr (length ps))
      (\<lparr>part_type = (\<lambda>p. True),
        feature_name_dictionary = insert_name ''identity=1''
          \<lparr>names_to_ids = Map.empty, ids_to_names = []\<rparr>,
        feature_extractors = [], feature_training_data = None,
        save_featurized = False\<rparr> :: (int, int, unit) FeaturizedModel) [1, 2]
     = Inr 2"
  using test_requires_dictionary
    [of "\<lparr>part_type = (\<lambda>p. True),
        feature_name_dictionary = \<lparr>names_to_ids = Map.empty, ids_to_names = []\<rparr>,
        feature_extractors = [], feature_training_data = None,
        save_featurized = False\<rparr> :: (int, int, unit) FeaturizedModel"
      "\<lambda>m ps. Inr (length ps)" "[1, 2]" "\<lambda>p. True" "[]" "[]" False]
    test_requires_dictionary
    [of "\<lparr>part_type = (\<lambda>p. True),
        feature_name_dictionary = insert_name ''identity=1''
          \<lparr>names_to_ids = Map.empty, ids_to_names = []\<rparr>,
        feature_extractors = [], feature_training_data = None,
        save_featurized = False\<rparr> :: (int, int, unit) FeaturizedModel"
      "\<lambda>m ps. Inr (length ps)" "[1, 2]" "\<lambda>p. True" "[]" "[]" False]
  by (simp add: len_def insert_name_def init_FeaturizedModel_def)

end
